theory Spec2Isabelle
  imports Main "HOL-Library.Word"
begin

section \<open>Buffers, numbers and public keys\<close>

text \<open>
  The SDK works on Node \<open>Buffer\<close>s: byte arrays with bounds-checked, range-checked
  integer accessors. A buffer is a list of bytes; every accessor that throws in the source
  returns an error value here. A \<open>bigint\<close> and an integer-valued \<open>number\<close> are \<open>int\<close>.
\<close>

type_synonym byte = "8 word"
type_synonym Buffer = "byte list"

datatype error = RangeError | TypeError | Error

definition and_then :: "error + 'a \<Rightarrow> ('a \<Rightarrow> error + 'b) \<Rightarrow> error + 'b" where
  "and_then m f = (case m of Inl e \<Rightarrow> Inl e | Inr x \<Rightarrow> f x)"

text \<open>Little-endian digits in base 256: the byte order of every \<open>...LE\<close> accessor.\<close>

fun le_bytes :: "nat \<Rightarrow> int \<Rightarrow> Buffer" where
  "le_bytes 0 v = []"
| "le_bytes (Suc n) v = word_of_int v # le_bytes n (v div 256)"

fun le_value :: "Buffer \<Rightarrow> int" where
  "le_value [] = 0"
| "le_value (b # bs) = uint b + 256 * le_value bs"

definition Buffer_alloc :: "nat \<Rightarrow> Buffer" where
  "Buffer_alloc n = replicate n 0"

definition Buffer_from_string :: "string \<Rightarrow> Buffer" where
  "Buffer_from_string s = map of_char s"

text \<open>
  Writing \<open>bs\<close> at \<open>offset\<close> and reading \<open>n\<close> bytes at \<open>offset\<close>; both throw a
  \<open>RangeError\<close> when the range leaves the buffer.
\<close>

definition write_bytes :: "Buffer \<Rightarrow> Buffer \<Rightarrow> nat \<Rightarrow> error + Buffer" where
  "write_bytes buf bs offset =
     (if offset + length bs \<le> length buf
      then Inr (take offset buf @ bs @ drop (offset + length bs) buf)
      else Inl RangeError)"

definition read_bytes :: "Buffer \<Rightarrow> nat \<Rightarrow> nat \<Rightarrow> error + Buffer" where
  "read_bytes buf offset n =
     (if offset + n \<le> length buf then Inr (take n (drop offset buf)) else Inl RangeError)"

definition writeUInt8 :: "Buffer \<Rightarrow> int \<Rightarrow> nat \<Rightarrow> error + Buffer" where
  "writeUInt8 buf v offset =
     (if 0 \<le> v \<and> v \<le> 255 then write_bytes buf (le_bytes 1 v) offset else Inl RangeError)"

definition writeUInt32LE :: "Buffer \<Rightarrow> int \<Rightarrow> nat \<Rightarrow> error + Buffer" where
  "writeUInt32LE buf v offset =
     (if 0 \<le> v \<and> v \<le> 4294967295 then write_bytes buf (le_bytes 4 v) offset
      else Inl RangeError)"

definition writeBigUInt64LE :: "Buffer \<Rightarrow> int \<Rightarrow> nat \<Rightarrow> error + Buffer" where
  "writeBigUInt64LE buf v offset =
     (if 0 \<le> v \<and> v < 2 ^ 64 then write_bytes buf (le_bytes 8 v) offset else Inl RangeError)"

definition writeBigInt64LE :: "Buffer \<Rightarrow> int \<Rightarrow> nat \<Rightarrow> error + Buffer" where
  "writeBigInt64LE buf v offset =
     (if - (2 ^ 63) \<le> v \<and> v < 2 ^ 63 then write_bytes buf (le_bytes 8 v) offset
      else Inl RangeError)"

definition readUInt8 :: "Buffer \<Rightarrow> nat \<Rightarrow> error + nat" where
  "readUInt8 buf offset = and_then (read_bytes buf offset 1) (\<lambda>bs. Inr (nat (le_value bs)))"

definition readBigUInt64LE :: "Buffer \<Rightarrow> nat \<Rightarrow> error + int" where
  "readBigUInt64LE buf offset = and_then (read_bytes buf offset 8) (\<lambda>bs. Inr (le_value bs))"

definition to_int64 :: "int \<Rightarrow> int" where
  "to_int64 u = (if u < 2 ^ 63 then u else u - 2 ^ 64)"

definition readBigInt64LE :: "Buffer \<Rightarrow> nat \<Rightarrow> error + int" where
  "readBigInt64LE buf offset =
     and_then (read_bytes buf offset 8) (\<lambda>bs. Inr (to_int64 (le_value bs)))"

text \<open>\<open>subarray(start, end)\<close> clamps both indices to the buffer, as \<open>take\<close> and \<open>drop\<close> do.\<close>

definition subarray :: "Buffer \<Rightarrow> nat \<Rightarrow> nat \<Rightarrow> Buffer" where
  "subarray buf start stop = take (stop - start) (drop start buf)"

text \<open>
  A \<open>PublicKey\<close> of the ledger client library holds a 256-bit number. Built from bytes it
  reads them big-endian and rejects a number that needs more than 32 bytes; \<open>toBuffer\<close>
  gives the 32 big-endian bytes; \<open>equals\<close> compares the numbers.
\<close>

type_synonym pubkey = "256 word"

definition PUBLIC_KEY_LENGTH :: nat where
  "PUBLIC_KEY_LENGTH = 32"

definition PublicKey_new :: "Buffer \<Rightarrow> error + pubkey" where
  "PublicKey_new bs =
     (let bn = le_value (rev bs)
      in if bn < 256 ^ PUBLIC_KEY_LENGTH then Inr (word_of_int bn) else Inl Error)"

definition toBuffer :: "pubkey \<Rightarrow> Buffer" where
  "toBuffer k = rev (le_bytes PUBLIC_KEY_LENGTH (uint k))"

text \<open>
  A variable declared as a \<open>PublicKey\<close> can hold something else at run time: the result
  of an async library function that was not awaited is a promise of the key. A promise
  has no \<open>toBuffer\<close> method, so the call throws a \<open>TypeError\<close>.
\<close>

datatype key_value = PublicKey pubkey | PromiseOfPublicKey pubkey

definition call_toBuffer :: "key_value \<Rightarrow> error + Buffer" where
  "call_toBuffer v =
     (case v of PublicKey k \<Rightarrow> Inr (toBuffer k) | PromiseOfPublicKey k \<Rightarrow> Inl TypeError)"

section \<open>Oracle accounts (sdk/instructions/oracle.ts)\<close>

record PriceOracle =
  magic :: int
  version :: nat
  bump :: nat
  authority :: pubkey
  instrument :: pubkey
  price :: int
  timestamp :: int
  confidence :: int

definition PRICE_ORACLE_SIZE :: nat where
  "PRICE_ORACLE_SIZE = 128"

definition ORACLE_MAGIC :: int where
  "ORACLE_MAGIC = 0x4c43524f4c435250"

text \<open>
  \<open>parseOracleData\<close>: the length test, the magic test, then the field reads at fixed
  offsets. The version byte is read like any other field. \<open>null\<close> is \<open>None\<close>.
\<close>

definition parseOracleData :: "Buffer \<Rightarrow> error + PriceOracle option" where
  "parseOracleData data =
     (if length data < PRICE_ORACLE_SIZE then Inr None
      else and_then (readBigUInt64LE data 0) (\<lambda>magic_v.
        if magic_v \<noteq> ORACLE_MAGIC then Inr None
        else and_then (readUInt8 data 8) (\<lambda>version_v.
             and_then (readUInt8 data 9) (\<lambda>bump_v.
             and_then (PublicKey_new (subarray data 16 48)) (\<lambda>authority_v.
             and_then (PublicKey_new (subarray data 48 80)) (\<lambda>instrument_v.
             and_then (readBigInt64LE data 80) (\<lambda>price_v.
             and_then (readBigInt64LE data 88) (\<lambda>timestamp_v.
             and_then (readBigInt64LE data 96) (\<lambda>confidence_v.
               Inr (Some \<lparr>magic = magic_v, version = version_v, bump = bump_v,
                          authority = authority_v, instrument = instrument_v,
                          price = price_v, timestamp = timestamp_v,
                          confidence = confidence_v\<rparr>))))))))))"

text \<open>
  \<open>fetchAllOracles\<close>: the ledger client returns the program's accounts of the oracle
  size (or fails); the loop parses each one and pushes the ones that parse.
\<close>

record Connection =
  getProgramAccounts :: "pubkey \<Rightarrow> nat \<Rightarrow> error + (pubkey \<times> Buffer) list"
  getAccountInfo :: "pubkey \<Rightarrow> error + Buffer option"

record OracleAccount =
  oracle_address :: pubkey
  oracle_data :: PriceOracle

fun collect_oracles ::
  "(pubkey \<times> Buffer) list \<Rightarrow> OracleAccount list \<Rightarrow> error + OracleAccount list" where
  "collect_oracles [] oracles = Inr oracles"
| "collect_oracles ((pk, account_data) # rest) oracles =
     (case parseOracleData account_data of
        Inl e \<Rightarrow> Inl e
      | Inr None \<Rightarrow> collect_oracles rest oracles
      | Inr (Some parsed) \<Rightarrow>
          collect_oracles rest (oracles @ [\<lparr>oracle_address = pk, oracle_data = parsed\<rparr>]))"

definition fetchAllOracles :: "Connection \<Rightarrow> pubkey \<Rightarrow> error + OracleAccount list" where
  "fetchAllOracles connection program =
     and_then (getProgramAccounts connection program PRICE_ORACLE_SIZE)
       (\<lambda>accounts. collect_oracles accounts [])"

section \<open>Constants (sdk/constants/index.ts)\<close>

datatype RouterInstruction =
    Initialize | InitializePortfolio | InitializeVault | Deposit | Withdraw
  | ExecuteCrossSlab | LiquidateUser | BurnLpShares | CancelLpOrders | RouterReserve
  | RouterRelease | RouterLiquidity | TopUpInsurance | WithdrawInsurance | GlobalHaircut
  | UpdateRiskParams

fun RouterInstruction_value :: "RouterInstruction \<Rightarrow> int" where
  "RouterInstruction_value Initialize = 0"
| "RouterInstruction_value InitializePortfolio = 1"
| "RouterInstruction_value InitializeVault = 2"
| "RouterInstruction_value Deposit = 3"
| "RouterInstruction_value Withdraw = 4"
| "RouterInstruction_value ExecuteCrossSlab = 5"
| "RouterInstruction_value LiquidateUser = 6"
| "RouterInstruction_value BurnLpShares = 7"
| "RouterInstruction_value CancelLpOrders = 8"
| "RouterInstruction_value RouterReserve = 9"
| "RouterInstruction_value RouterRelease = 10"
| "RouterInstruction_value RouterLiquidity = 11"
| "RouterInstruction_value TopUpInsurance = 12"
| "RouterInstruction_value WithdrawInsurance = 13"
| "RouterInstruction_value GlobalHaircut = 14"
| "RouterInstruction_value UpdateRiskParams = 15"

definition all_RouterInstructions :: "RouterInstruction list" where
  "all_RouterInstructions =
     [Initialize, InitializePortfolio, InitializeVault, Deposit, Withdraw, ExecuteCrossSlab,
      LiquidateUser, BurnLpShares, CancelLpOrders, RouterReserve, RouterRelease,
      RouterLiquidity, TopUpInsurance, WithdrawInsurance, GlobalHaircut, UpdateRiskParams]"

definition VAULT_SEED :: Buffer where "VAULT_SEED = Buffer_from_string ''vault''"
definition ESCROW_SEED :: Buffer where "ESCROW_SEED = Buffer_from_string ''escrow''"
definition REGISTRY_SEED :: Buffer where "REGISTRY_SEED = Buffer_from_string ''registry''"
definition AUTHORITY_SEED :: Buffer where "AUTHORITY_SEED = Buffer_from_string ''authority''"
definition LP_SEAT_SEED :: Buffer where "LP_SEAT_SEED = Buffer_from_string ''lp_seat''"

section \<open>Address derivation (sdk/pda/index.ts)\<close>

text \<open>
  The derivation primitives belong to the ledger client library, not to this repository:
  \<open>findProgramAddressSync\<close> (hash of the seeds and the program identity, with the bump
  search; it throws when a seed is too long or no bump is found), \<open>createWithSeed\<close> and the
  base-58 decoding of an address string. They are parameters of the model; like the
  library's, they are functions of their arguments only. \<open>createWithSeed\<close> is an async
  function of the library: the parameter gives the key its promise resolves to.
\<close>

record Web3 =
  findProgramAddressSync :: "Buffer list \<Rightarrow> pubkey \<Rightarrow> error + (pubkey \<times> nat)"
  createWithSeed :: "pubkey \<Rightarrow> string \<Rightarrow> pubkey \<Rightarrow> pubkey"
  PublicKey_fromString :: "string \<Rightarrow> error + pubkey"

record PdaResult =
  address :: pubkey
  pda_bump :: nat

definition pdaResult :: "error + (pubkey \<times> nat) \<Rightarrow> error + PdaResult" where
  "pdaResult found = and_then found (\<lambda>(a, b). Inr \<lparr>address = a, pda_bump = b\<rparr>)"

definition deriveAuthorityPda :: "Web3 \<Rightarrow> pubkey \<Rightarrow> error + PdaResult" where
  "deriveAuthorityPda w program = pdaResult (findProgramAddressSync w [AUTHORITY_SEED] program)"

definition deriveVaultPda :: "Web3 \<Rightarrow> pubkey \<Rightarrow> pubkey \<Rightarrow> error + PdaResult" where
  "deriveVaultPda w mint_key program =
     pdaResult (findProgramAddressSync w [VAULT_SEED, toBuffer mint_key] program)"

definition deriveRegistryPda :: "Web3 \<Rightarrow> pubkey \<Rightarrow> error + PdaResult" where
  "deriveRegistryPda w program = pdaResult (findProgramAddressSync w [REGISTRY_SEED] program)"

definition deriveEscrowPda ::
  "Web3 \<Rightarrow> pubkey \<Rightarrow> pubkey \<Rightarrow> pubkey \<Rightarrow> pubkey \<Rightarrow> error + PdaResult" where
  "deriveEscrowPda w user slab mint_key program =
     pdaResult (findProgramAddressSync w
       [ESCROW_SEED, toBuffer user, toBuffer slab, toBuffer mint_key] program)"

text \<open>
  \<open>deriveLpSeatPda\<close> writes the context id into a 4-byte buffer with \<open>writeUInt32LE\<close>
  (offset 0) and passes it as the last seed.
\<close>

definition contextIdBuffer :: "int \<Rightarrow> error + Buffer" where
  "contextIdBuffer contextId = writeUInt32LE (Buffer_alloc 4) contextId 0"

definition deriveLpSeatPda ::
  "Web3 \<Rightarrow> pubkey \<Rightarrow> pubkey \<Rightarrow> pubkey \<Rightarrow> int \<Rightarrow> pubkey \<Rightarrow> error + PdaResult" where
  "deriveLpSeatPda w routerId matcherState portfolio contextId program =
     and_then (contextIdBuffer contextId) (\<lambda>buf.
       pdaResult (findProgramAddressSync w
         [LP_SEAT_SEED, toBuffer routerId, toBuffer matcherState, toBuffer portfolio, buf]
         program))"

text \<open>
  \<open>createPortfolioAddress\<close> is declared to return a \<open>PublicKey\<close> and returns what
  \<open>PublicKey.createWithSeed\<close> returns, without awaiting it: a promise.
\<close>

definition createPortfolioAddress :: "Web3 \<Rightarrow> pubkey \<Rightarrow> pubkey \<Rightarrow> key_value" where
  "createPortfolioAddress w user program =
     PromiseOfPublicKey (createWithSeed w user ''portfolio'' program)"

section \<open>Instruction builders (sdk/instructions/router.ts)\<close>

record AccountMeta =
  pubkey :: key_value
  isSigner :: bool
  isWritable :: bool

record TransactionInstruction =
  programId :: pubkey
  keys :: "AccountMeta list"
  data :: Buffer

definition SystemProgram_programId :: pubkey where
  "SystemProgram_programId = 0"

record DepositParams =
  amount :: int
  mint :: pubkey

datatype Side = Buy | Sell
datatype TimeInForce = GTC | IOC | FOK
datatype MakerClass = REG | DLP

fun Side_value :: "Side \<Rightarrow> int" where
  "Side_value Buy = 0"
| "Side_value Sell = 1"

record PlaceOrderParams =
  instrumentIdx :: int
  side :: Side
  order_size :: int
  order_price :: int
  timeInForce :: TimeInForce
  makerClass :: "MakerClass option"

definition createDepositInstruction ::
  "Web3 \<Rightarrow> pubkey \<Rightarrow> DepositParams \<Rightarrow> pubkey \<Rightarrow> error + TransactionInstruction" where
  "createDepositInstruction w user params program =
     (let portfolioAddress = createPortfolioAddress w user program
      in and_then (writeUInt8 (Buffer_alloc 9) (RouterInstruction_value Deposit) 0) (\<lambda>d0.
         and_then (writeBigUInt64LE d0 (amount params) 1) (\<lambda>instructionData.
           Inr \<lparr>programId = program,
                keys = [\<lparr>pubkey = portfolioAddress, isSigner = False, isWritable = True\<rparr>,
                        \<lparr>pubkey = PublicKey user, isSigner = True, isWritable = True\<rparr>,
                        \<lparr>pubkey = PublicKey SystemProgram_programId, isSigner = False,
                         isWritable = False\<rparr>],
                data = instructionData\<rparr>)))"

text \<open>
  The cross-slab builder derives the vault, registry and authority addresses, then builds
  the seed list of the receipt address; its second element is
  \<open>portfolioAddress.toBuffer()\<close>. The payload is written after that.
\<close>

definition createExecuteCrossSlabInstruction ::
  "Web3 \<Rightarrow> pubkey \<Rightarrow> pubkey \<Rightarrow> pubkey \<Rightarrow> PlaceOrderParams \<Rightarrow> pubkey
     \<Rightarrow> error + TransactionInstruction" where
  "createExecuteCrossSlabInstruction w user slabPubkey oraclePubkey params program =
     (let portfolioAddress = createPortfolioAddress w user program
      in and_then (PublicKey_fromString w ''So11111111111111111111111111111111111111112'')
           (\<lambda>sol_mint.
         and_then (deriveVaultPda w sol_mint program) (\<lambda>vault.
         and_then (deriveRegistryPda w program) (\<lambda>registry.
         and_then (deriveAuthorityPda w program) (\<lambda>authorityPda.
         and_then (call_toBuffer portfolioAddress) (\<lambda>portfolioBytes.
         and_then (findProgramAddressSync w
                     [Buffer_from_string ''receipt'', portfolioBytes, toBuffer slabPubkey]
                     program) (\<lambda>(receiptPda, receiptBump).
         let numSplits = 1
         in and_then (writeUInt8 (Buffer_alloc (1 + 1 + 17))
                        (RouterInstruction_value ExecuteCrossSlab) 0) (\<lambda>d0.
            and_then (writeUInt8 d0 numSplits 1) (\<lambda>d1.
            let sideByte = (if Side_value (side params) = 0 then 0 else 1)
            in and_then (writeUInt8 d1 sideByte 2) (\<lambda>d2.
               and_then (writeBigInt64LE d2 (order_size params) 3) (\<lambda>d3.
               and_then (writeBigInt64LE d3 (order_price params) 11) (\<lambda>instructionData.
                 Inr \<lparr>programId = program,
                      keys =
                        [\<lparr>pubkey = portfolioAddress, isSigner = False, isWritable = True\<rparr>,
                         \<lparr>pubkey = PublicKey user, isSigner = True, isWritable = False\<rparr>,
                         \<lparr>pubkey = PublicKey (address vault), isSigner = False,
                          isWritable = True\<rparr>,
                         \<lparr>pubkey = PublicKey (address registry), isSigner = False,
                          isWritable = True\<rparr>,
                         \<lparr>pubkey = PublicKey (address authorityPda), isSigner = False,
                          isWritable = False\<rparr>,
                         \<lparr>pubkey = PublicKey SystemProgram_programId, isSigner = False,
                          isWritable = False\<rparr>,
                         \<lparr>pubkey = PublicKey oraclePubkey, isSigner = False,
                          isWritable = False\<rparr>,
                         \<lparr>pubkey = PublicKey slabPubkey, isSigner = False,
                          isWritable = True\<rparr>,
                         \<lparr>pubkey = PublicKey receiptPda, isSigner = False,
                          isWritable = True\<rparr>],
                      data = instructionData\<rparr>))))))))))))"

text \<open>
  The reserve builder first builds the seed list of the LP-seat address: the tag, the
  program and matcher-state keys, \<open>portfolioAddress.toBuffer()\<close>, and the memory of a
  one-element \<open>Uint32Array\<close> holding the context id (the number reduced modulo \<open>2 ^ 32\<close>,
  in the byte order of the host). The payload, where the context id is written with
  \<open>writeUInt32LE\<close>, comes after the derivation.
\<close>

datatype endianness = LittleEndian | BigEndian

definition Uint32Array_buffer :: "endianness \<Rightarrow> int list \<Rightarrow> Buffer" where
  "Uint32Array_buffer host xs =
     concat (map (\<lambda>x. case host of
                         LittleEndian \<Rightarrow> le_bytes 4 (x mod 2 ^ 32)
                       | BigEndian \<Rightarrow> rev (le_bytes 4 (x mod 2 ^ 32))) xs)"

definition createRouterReserveInstruction ::
  "endianness \<Rightarrow> Web3 \<Rightarrow> pubkey \<Rightarrow> pubkey \<Rightarrow> int \<Rightarrow> int \<Rightarrow> pubkey
     \<Rightarrow> error + TransactionInstruction" where
  "createRouterReserveInstruction host w user matcherState amt contextId program =
     (let portfolioAddress = createPortfolioAddress w user program
      in and_then (call_toBuffer portfolioAddress) (\<lambda>portfolioBytes.
         and_then (findProgramAddressSync w
                     [Buffer_from_string ''lp_seat'', toBuffer program, toBuffer matcherState,
                      portfolioBytes, Uint32Array_buffer host [contextId]]
                     program) (\<lambda>(lpSeatPda, lpSeatBump).
         and_then (writeUInt8 (Buffer_alloc 13) (RouterInstruction_value RouterReserve) 0)
           (\<lambda>d0.
         and_then (writeBigUInt64LE d0 amt 1) (\<lambda>d1.
         and_then (writeUInt32LE d1 contextId 9) (\<lambda>instructionData.
           Inr \<lparr>programId = program,
                keys = [\<lparr>pubkey = portfolioAddress, isSigner = False, isWritable = True\<rparr>,
                        \<lparr>pubkey = PublicKey user, isSigner = True, isWritable = False\<rparr>,
                        \<lparr>pubkey = PublicKey matcherState, isSigner = False,
                         isWritable = False\<rparr>,
                        \<lparr>pubkey = PublicKey lpSeatPda, isSigner = False,
                         isWritable = True\<rparr>,
                        \<lparr>pubkey = PublicKey SystemProgram_programId, isSigner = False,
                         isWritable = False\<rparr>],
                data = instructionData\<rparr>))))))"

section \<open>Governance authorization (lib/multisig.ts)\<close>

text \<open>
  The committee record and its decoder belong to the multisig library.
  \<open>Multisig.fromAccountAddress\<close> fetches the account at an address and deserializes it; it
  throws when the fetch fails, when there is no account, or when the bytes are not a
  committee record, and never yields \<open>null\<close>, so the \<open>null\<close> test of
  \<open>isSquadsMultisig\<close> passes whenever the call returns. The deserializer is a parameter
  of the model. The functions below catch every exception, so they return a plain
  boolean; the two fetches of one \<open>hasGovernancePermission\<close> call read the same ledger
  snapshot.
\<close>

record Member =
  key :: pubkey
  permissions :: nat

record Multisig =
  threshold :: nat
  members :: "Member list"
  transactionIndex :: int
  rentCollector :: "pubkey option"

definition Multisig_fromAccountAddress ::
  "(Buffer \<Rightarrow> Multisig option) \<Rightarrow> Connection \<Rightarrow> pubkey \<Rightarrow> error + Multisig" where
  "Multisig_fromAccountAddress deserialize connection addr =
     and_then (getAccountInfo connection addr) (\<lambda>accountInfo.
       case accountInfo of
         None \<Rightarrow> Inl Error
       | Some bytes \<Rightarrow> (case deserialize bytes of None \<Rightarrow> Inl Error | Some m \<Rightarrow> Inr m))"

definition isSquadsMultisig ::
  "(Buffer \<Rightarrow> Multisig option) \<Rightarrow> Connection \<Rightarrow> pubkey \<Rightarrow> bool" where
  "isSquadsMultisig deserialize connection addr =
     (case Multisig_fromAccountAddress deserialize connection addr of
        Inl e \<Rightarrow> False
      | Inr multisigAccount \<Rightarrow> True)"

definition isMultisigMember ::
  "(Buffer \<Rightarrow> Multisig option) \<Rightarrow> Connection \<Rightarrow> pubkey \<Rightarrow> pubkey \<Rightarrow> bool" where
  "isMultisigMember deserialize connection multisigAddress walletAddress =
     (case Multisig_fromAccountAddress deserialize connection multisigAddress of
        Inl e \<Rightarrow> False
      | Inr multisigAccount \<Rightarrow>
          list_ex (\<lambda>member. key member = walletAddress) (members multisigAccount))"

definition hasGovernancePermission ::
  "(Buffer \<Rightarrow> Multisig option) \<Rightarrow> Connection \<Rightarrow> pubkey \<Rightarrow> pubkey \<Rightarrow> bool" where
  "hasGovernancePermission deserialize connection governanceAddress walletAddress =
     (if walletAddress = governanceAddress then True
      else if isSquadsMultisig deserialize connection governanceAddress
           then isMultisigMember deserialize connection governanceAddress walletAddress
           else False)"

section \<open>Sample data\<close>

text \<open>
  Concrete inputs for evaluating the definitions: a toy derivation primitive (a polynomial
  checksum of the seeds and the program identity), a well-formed oracle account image, and a
  ledger holding one committee account at address 100 with members 11, 12 and 13.
\<close>

definition example_hash :: "Buffer \<Rightarrow> pubkey" where
  "example_hash bs = word_of_int (foldl (\<lambda>h b. h * 257 + uint b + 1) 0 bs)"

definition example_web3 :: Web3 where
  "example_web3 =
     \<lparr>findProgramAddressSync =
        (\<lambda>seeds program. Inr (example_hash (concat seeds @ toBuffer program), 255)),
      createWithSeed = (\<lambda>base seed program. example_hash (toBuffer base @ toBuffer program)),
      PublicKey_fromString = (\<lambda>s. Inr (example_hash (Buffer_from_string s)))\<rparr>"

definition example_oracle_bytes :: "int \<Rightarrow> int \<Rightarrow> Buffer" where
  "example_oracle_bytes version_byte price_value =
     le_bytes 8 ORACLE_MAGIC @ le_bytes 1 version_byte @ [254] @ replicate 6 0
       @ toBuffer 5 @ toBuffer 6
       @ le_bytes 8 price_value @ le_bytes 8 1700000000 @ le_bytes 8 1000 @ replicate 24 0"

definition example_committee :: Multisig where
  "example_committee =
     \<lparr>threshold = 2,
      members = [\<lparr>key = 11, permissions = 7\<rparr>, \<lparr>key = 12, permissions = 7\<rparr>,
                 \<lparr>key = 13, permissions = 7\<rparr>],
      transactionIndex = 0,
      rentCollector = None\<rparr>"

definition example_deserialize :: "Buffer \<Rightarrow> Multisig option" where
  "example_deserialize bytes = (if bytes = [1] then Some example_committee else None)"

definition example_connection :: Connection where
  "example_connection =
     \<lparr>getProgramAccounts =
        (\<lambda>program dataSize.
           Inr [(21, example_oracle_bytes 1 50000000000),
                (22, (example_oracle_bytes 1 60000000000)[0 := 81]),
                (23, example_oracle_bytes 1 (- 70000000000))]),
      getAccountInfo =
        (\<lambda>addr. if addr = 100 then Inr (Some [1])
                 else if addr = 11 then Inr (Some [])
                 else Inr None)\<rparr>"

section \<open>Basic facts about the buffer model\<close>

lemma and_then_Inr [simp]: "and_then (Inr x) f = f x"
  by (simp add: and_then_def)

lemma and_then_Inl [simp]: "and_then (Inl e) f = Inl e"
  by (simp add: and_then_def)

lemma and_then_eq_Inr: "and_then m f = Inr y \<longleftrightarrow> (\<exists>x. m = Inr x \<and> f x = Inr y)"
  by (cases m) simp_all

lemma length_le_bytes [simp]: "length (le_bytes n v) = n"
  by (induction n arbitrary: v) simp_all

lemma le_value_le_bytes: "0 \<le> v \<Longrightarrow> v < 256 ^ n \<Longrightarrow> le_value (le_bytes n v) = v"
proof (induction n arbitrary: v)
  case 0
  then show ?case by simp
next
  case (Suc n)
  have "v div 256 < 256 ^ n" using Suc.prems by simp
  moreover have "0 \<le> v div 256" using Suc.prems by simp
  ultimately have "le_value (le_bytes n (v div 256)) = v div 256" by (rule Suc.IH[rotated])
  moreover have "uint (word_of_int v :: byte) = v mod 256" by (simp add: uint_word_of_int)
  ultimately show ?case by simp
qed

lemma le_value_bound: "le_value bs < 256 ^ length bs"
proof (induction bs)
  case Nil
  then show ?case by simp
next
  case (Cons b bs)
  have "uint b < 256" using uint_bounded[of b] by simp
  with Cons show ?case by simp
qed

lemma le_value_rev_bound: "le_value (rev bs) < 256 ^ length bs"
  using le_value_bound[of "rev bs"] by simp

lemma le_value_byte: "nat (le_value [b]) = unat b"
  by simp

lemma read_bytes_ok:
  "offset + n \<le> length buf \<Longrightarrow> read_bytes buf offset n = Inr (take n (drop offset buf))"
  by (simp add: read_bytes_def)

lemma PublicKey_new_ok:
  assumes "length bs \<le> PUBLIC_KEY_LENGTH"
  shows "PublicKey_new bs = Inr (word_of_int (le_value (rev bs)))"
proof -
  have "le_value (rev bs) < 256 ^ length bs" by (rule le_value_rev_bound)
  also have "(256::int) ^ length bs \<le> 256 ^ PUBLIC_KEY_LENGTH"
    using assms by (intro power_increasing) simp_all
  finally show ?thesis by (simp add: PublicKey_new_def)
qed

lemma toBuffer_length [simp]: "length (toBuffer k) = 32"
  by (simp add: toBuffer_def PUBLIC_KEY_LENGTH_def)

lemma toBuffer_value: "le_value (rev (toBuffer k)) = uint k"
proof -
  have "uint k < 2 ^ 256" using uint_lt2p[of k] by simp
  then have "uint k < 256 ^ 32" by simp
  then show ?thesis by (simp add: toBuffer_def PUBLIC_KEY_LENGTH_def le_value_le_bytes)
qed

lemma toBuffer_inj: "toBuffer a = toBuffer b \<longleftrightarrow> a = b"
proof
  assume "toBuffer a = toBuffer b"
  then have "le_value (rev (toBuffer a)) = le_value (rev (toBuffer b))" by simp
  then have "uint a = uint b" by (simp add: toBuffer_value)
  then show "a = b" by (rule word_uint_eqI)
qed simp

section \<open>The oracle account decoder\<close>

text \<open>
  What \<open>parseOracleData\<close> computes, for every buffer: the three outcomes in the order of
  the source, with every read resolved. No read leaves the buffer, so no branch throws.
\<close>

lemma parseOracleData_eq:
  "parseOracleData buf =
     (if length buf < 128 then Inr None
      else if le_value (take 8 buf) \<noteq> ORACLE_MAGIC then Inr None
      else Inr (Some \<lparr>magic = ORACLE_MAGIC,
                      version = unat (buf ! 8),
                      bump = unat (buf ! 9),
                      authority = word_of_int (le_value (rev (take 32 (drop 16 buf)))),
                      instrument = word_of_int (le_value (rev (take 32 (drop 48 buf)))),
                      price = to_int64 (le_value (take 8 (drop 80 buf))),
                      timestamp = to_int64 (le_value (take 8 (drop 88 buf))),
                      confidence = to_int64 (le_value (take 8 (drop 96 buf)))\<rparr>))"
proof (cases "length buf < 128")
  case True
  then show ?thesis by (simp add: parseOracleData_def PRICE_ORACLE_SIZE_def)
next
  case False
  then have len: "128 \<le> length buf" by simp
  have r0: "readBigUInt64LE buf 0 = Inr (le_value (take 8 buf))"
    using len by (simp add: readBigUInt64LE_def read_bytes_ok)
  have r8: "readUInt8 buf 8 = Inr (unat (buf ! 8))"
    using len
    by (simp add: readUInt8_def read_bytes_ok le_value_byte hd_drop_conv_nth take_Suc)
  have r9: "readUInt8 buf 9 = Inr (unat (buf ! 9))"
    using len
    by (simp add: readUInt8_def read_bytes_ok le_value_byte hd_drop_conv_nth take_Suc)
  have a: "PublicKey_new (subarray buf 16 48)
             = Inr (word_of_int (le_value (rev (take 32 (drop 16 buf)))))"
    by (simp add: subarray_def PublicKey_new_ok PUBLIC_KEY_LENGTH_def)
  have i: "PublicKey_new (subarray buf 48 80)
             = Inr (word_of_int (le_value (rev (take 32 (drop 48 buf)))))"
    by (simp add: subarray_def PublicKey_new_ok PUBLIC_KEY_LENGTH_def)
  have p: "readBigInt64LE buf 80 = Inr (to_int64 (le_value (take 8 (drop 80 buf))))"
    using len by (simp add: readBigInt64LE_def read_bytes_ok)
  have t: "readBigInt64LE buf 88 = Inr (to_int64 (le_value (take 8 (drop 88 buf))))"
    using len by (simp add: readBigInt64LE_def read_bytes_ok)
  have c: "readBigInt64LE buf 96 = Inr (to_int64 (le_value (take 8 (drop 96 buf))))"
    using len by (simp add: readBigInt64LE_def read_bytes_ok)
  show ?thesis
    using False by (simp add: parseOracleData_def PRICE_ORACLE_SIZE_def r0 r8 r9 a i p t c)
qed

lemma parseOracleData_never_throws: "parseOracleData buf \<noteq> Inl e"
  by (simp add: parseOracleData_eq)

text \<open>
  The version byte is not validated: an account image with the right magic and version
  byte 255 decodes to a full record.
\<close>

theorem parseOracleData_version_counterexample:
  "parseOracleData (example_oracle_bytes 255 50000000000) =
     Inr (Some \<lparr>magic = 5495326470857511504, version = 255, bump = 254, authority = 5,
                instrument = 6, price = 50000000000, timestamp = 1700000000,
                confidence = 1000\<rparr>)"
  by code_simp

text \<open>
  Claim C1, as the code has it. For every buffer the decoder returns \<open>null\<close> when the
  buffer is shorter than 128 bytes; otherwise \<open>null\<close> when the 8 little-endian bytes at
  offset 0 are not the magic constant; otherwise, whatever the version byte is, a record
  whose every field is read from its fixed offset. The two rejections are not told apart,
  the decoder never throws, and it never returns a partly filled record.
\<close>

theorem parseOracleData_checks:
  "parseOracleData buf =
     (if length buf < 128 then Inr None
      else if le_value (take 8 buf) \<noteq> ORACLE_MAGIC then Inr None
      else Inr (Some \<lparr>magic = ORACLE_MAGIC,
                      version = unat (buf ! 8),
                      bump = unat (buf ! 9),
                      authority = word_of_int (le_value (rev (take 32 (drop 16 buf)))),
                      instrument = word_of_int (le_value (rev (take 32 (drop 48 buf)))),
                      price = to_int64 (le_value (take 8 (drop 80 buf))),
                      timestamp = to_int64 (le_value (take 8 (drop 88 buf))),
                      confidence = to_int64 (le_value (take 8 (drop 96 buf)))\<rparr>))"
  by (rule parseOracleData_eq)

theorem parseOracleData_checks_witness:
  "parseOracleData (example_oracle_bytes 1 (- 70000000000)) =
     Inr (Some \<lparr>magic = ORACLE_MAGIC, version = 1, bump = 254, authority = 5,
                instrument = 6, price = - 70000000000, timestamp = 1700000000,
                confidence = 1000\<rparr>)
   \<and> parseOracleData ((example_oracle_bytes 1 60000000000)[0 := 81]) = Inr None
   \<and> parseOracleData (take 100 (example_oracle_bytes 1 60000000000)) = Inr None"
  unfolding parseOracleData_checks by code_simp

text \<open>
  Claim C6. A buffer shorter than the 128 bytes of an oracle record is rejected by the
  length test before any read: the decoder returns \<open>null\<close>, not a record and not an
  out-of-range error.
\<close>

theorem parseOracleData_truncated:
  "length buf < PRICE_ORACLE_SIZE \<Longrightarrow> parseOracleData buf = Inr None"
  by (simp add: parseOracleData_def)

theorem parseOracleData_truncated_witness:
  "length (take 127 (example_oracle_bytes 1 50000000000)) < PRICE_ORACLE_SIZE
   \<and> parseOracleData (take 127 (example_oracle_bytes 1 50000000000)) = Inr None"
proof -
  have h: "length (take 127 (example_oracle_bytes 1 50000000000)) < PRICE_ORACLE_SIZE"
    by (simp add: PRICE_ORACLE_SIZE_def)
  show ?thesis using h parseOracleData_truncated [OF h] by simp
qed

section \<open>Batch decoding\<close>

lemma collect_oracles_eq:
  "collect_oracles accounts acc =
     Inr (acc @ List.map_filter
            (\<lambda>(pk, d). case parseOracleData d of
                          Inr (Some r) \<Rightarrow> Some \<lparr>oracle_address = pk, oracle_data = r\<rparr>
                        | _ \<Rightarrow> None) accounts)"
proof (induction accounts arbitrary: acc)
  case Nil
  then show ?case by (simp add: map_filter_simps)
next
  case (Cons a accounts)
  obtain pk d where a: "a = (pk, d)" by (cases a)
  show ?case
  proof (cases "parseOracleData d")
    case (Inl e)
    then show ?thesis using parseOracleData_never_throws by blast
  next
    case (Inr r)
    then show ?thesis using Cons.IH a by (cases r) (simp_all add: map_filter_simps)
  qed
qed

text \<open>
  Claim C7. Whatever accounts the ledger returns, \<open>fetchAllOracles\<close> returns, in order,
  exactly the accounts that parse, each with its own decoded record: an account that does
  not parse is skipped and neither stops the loop nor changes another entry. For three
  accounts of which only the second has a wrong magic constant, the result is the first
  and the third.
\<close>

theorem fetchAllOracles_isolation:
  assumes "getProgramAccounts connection program PRICE_ORACLE_SIZE = Inr accounts"
  shows "fetchAllOracles connection program =
           Inr (List.map_filter
                  (\<lambda>(pk, d). case parseOracleData d of
                                Inr (Some r) \<Rightarrow> Some \<lparr>oracle_address = pk, oracle_data = r\<rparr>
                              | _ \<Rightarrow> None) accounts)
         \<and> (accounts = [(a1, d1), (a2, d2), (a3, d3)]
              \<and> parseOracleData d1 = Inr (Some r1)
              \<and> le_value (take 8 d2) \<noteq> ORACLE_MAGIC
              \<and> parseOracleData d3 = Inr (Some r3)
            \<longrightarrow> fetchAllOracles connection program =
                  Inr [\<lparr>oracle_address = a1, oracle_data = r1\<rparr>,
                       \<lparr>oracle_address = a3, oracle_data = r3\<rparr>])"
proof -
  have eq: "fetchAllOracles connection program = collect_oracles accounts []"
    using assms by (simp add: fetchAllOracles_def)
  have bad: "le_value (take 8 d2) \<noteq> ORACLE_MAGIC \<Longrightarrow> parseOracleData d2 = Inr None"
    by (simp add: parseOracleData_eq)
  show ?thesis
    unfolding eq collect_oracles_eq using bad by (auto simp: map_filter_simps)
qed

lemma example_accounts:
  "getProgramAccounts example_connection 9 PRICE_ORACLE_SIZE =
     Inr [(21, example_oracle_bytes 1 50000000000),
          (22, (example_oracle_bytes 1 60000000000)[0 := 81]),
          (23, example_oracle_bytes 1 (- 70000000000))]"
  by (simp add: example_connection_def)

lemma example_oracle_first:
  "parseOracleData (example_oracle_bytes 1 50000000000) =
     Inr (Some \<lparr>magic = 5495326470857511504, version = 1, bump = 254, authority = 5,
                instrument = 6, price = 50000000000, timestamp = 1700000000,
                confidence = 1000\<rparr>)"
  by code_simp

lemma example_oracle_second:
  "le_value (take 8 ((example_oracle_bytes 1 60000000000)[0 := 81])) \<noteq> ORACLE_MAGIC"
  by code_simp

lemma example_oracle_third:
  "parseOracleData (example_oracle_bytes 1 (- 70000000000)) =
     Inr (Some \<lparr>magic = 5495326470857511504, version = 1, bump = 254, authority = 5,
                instrument = 6, price = - 70000000000, timestamp = 1700000000,
                confidence = 1000\<rparr>)"
  by code_simp

theorem fetchAllOracles_isolation_witness:
  "fetchAllOracles example_connection 9 =
     Inr [\<lparr>oracle_address = 21,
           oracle_data = \<lparr>magic = 5495326470857511504, version = 1, bump = 254,
                          authority = 5, instrument = 6, price = 50000000000,
                          timestamp = 1700000000, confidence = 1000\<rparr>\<rparr>,
          \<lparr>oracle_address = 23,
           oracle_data = \<lparr>magic = 5495326470857511504, version = 1, bump = 254,
                          authority = 5, instrument = 6, price = - 70000000000,
                          timestamp = 1700000000, confidence = 1000\<rparr>\<rparr>]"
  using fetchAllOracles_isolation [OF example_accounts,
          of 21 "example_oracle_bytes 1 50000000000"
             22 "(example_oracle_bytes 1 60000000000)[0 := 81]"
             23 "example_oracle_bytes 1 (- 70000000000)"]
        example_oracle_first example_oracle_second example_oracle_third
  by blast

section \<open>Instruction discriminators and the deposit builder\<close>

lemma deposit_data:
  assumes "0 \<le> amount params" and "amount params < 2 ^ 64"
  shows "createDepositInstruction w user params program =
     Inr \<lparr>programId = program,
          keys = [\<lparr>pubkey = createPortfolioAddress w user program, isSigner = False,
                   isWritable = True\<rparr>,
                  \<lparr>pubkey = PublicKey user, isSigner = True, isWritable = True\<rparr>,
                  \<lparr>pubkey = PublicKey SystemProgram_programId, isSigner = False,
                   isWritable = False\<rparr>],
          data = 3 # le_bytes 8 (amount params)\<rparr>"
  using assms
  by (simp add: createDepositInstruction_def writeUInt8_def writeBigUInt64LE_def
      write_bytes_def Buffer_alloc_def Let_def)

lemma le_bytes_example_amount: "le_bytes 8 1000000000 = [0, 202, 154, 59, 0, 0, 0, 0]"
  by code_simp

lemma example_deposit:
  "createDepositInstruction example_web3 1 \<lparr>amount = 1000000000, mint = 2\<rparr> 3 =
     Inr \<lparr>programId = 3,
          keys = [\<lparr>pubkey = createPortfolioAddress example_web3 1 3, isSigner = False,
                   isWritable = True\<rparr>,
                  \<lparr>pubkey = PublicKey 1, isSigner = True, isWritable = True\<rparr>,
                  \<lparr>pubkey = PublicKey 0, isSigner = False, isWritable = False\<rparr>],
          data = [3, 0, 202, 154, 59, 0, 0, 0, 0]\<rparr>"
  using deposit_data [of "\<lparr>amount = 1000000000, mint = 2\<rparr>" example_web3 1 3]
  by (simp add: le_bytes_example_amount SystemProgram_programId_def)

text \<open>The deposit discriminator is 3, not 1: 1 selects \<open>InitializePortfolio\<close>.\<close>

theorem deposit_discriminator_counterexample:
  "RouterInstruction_value Deposit = 3 \<and> RouterInstruction_value Deposit \<noteq> 1
   \<and> RouterInstruction_value InitializePortfolio = 1"
  by simp

text \<open>
  Claim C2, as the code has it. The router discriminators are the sixteen consecutive
  integers 0 to 15 in declaration order, with 0 for \<open>Initialize\<close> and 3 for \<open>Deposit\<close>;
  every instruction the deposit builder returns carries the deposit discriminator in byte 0
  of its payload.
\<close>

theorem RouterInstruction_discriminators:
  "map RouterInstruction_value all_RouterInstructions = map int [0..<16]
   \<and> RouterInstruction_value Initialize = 0
   \<and> RouterInstruction_value Deposit = 3
   \<and> (createDepositInstruction w user params program = Inr ix \<longrightarrow>
        data ix ! 0 = word_of_int (RouterInstruction_value Deposit))"
proof -
  have "map int [0..<16] = [0, 1, 2, 3, 4, 5, 6, 7, 8, 9, 10, 11, 12, 13, 14, 15]"
    by (simp add: upt_rec)
  moreover have "createDepositInstruction w user params program = Inr ix \<Longrightarrow>
        data ix ! 0 = word_of_int (RouterInstruction_value Deposit)"
    by (auto simp: createDepositInstruction_def Let_def and_then_eq_Inr writeUInt8_def
        writeBigUInt64LE_def write_bytes_def Buffer_alloc_def split: if_splits)
  ultimately show ?thesis by (simp add: all_RouterInstructions_def)
qed

theorem RouterInstruction_discriminators_witness:
  "createDepositInstruction example_web3 1 \<lparr>amount = 1000000000, mint = 2\<rparr> 3 =
     Inr \<lparr>programId = 3,
          keys = [\<lparr>pubkey = createPortfolioAddress example_web3 1 3, isSigner = False,
                   isWritable = True\<rparr>,
                  \<lparr>pubkey = PublicKey 1, isSigner = True, isWritable = True\<rparr>,
                  \<lparr>pubkey = PublicKey 0, isSigner = False, isWritable = False\<rparr>],
          data = [3, 0, 202, 154, 59, 0, 0, 0, 0]\<rparr>
   \<and> [3, 0, 202, 154, 59, 0, 0, 0, 0] ! 0
       = (word_of_int (RouterInstruction_value Deposit) :: byte)"
  using RouterInstruction_discriminators
          [of example_web3 1 "\<lparr>amount = 1000000000, mint = 2\<rparr>" 3
              "\<lparr>programId = 3,
                keys = [\<lparr>pubkey = createPortfolioAddress example_web3 1 3, isSigner = False,
                         isWritable = True\<rparr>,
                        \<lparr>pubkey = PublicKey 1, isSigner = True, isWritable = True\<rparr>,
                        \<lparr>pubkey = PublicKey 0, isSigner = False, isWritable = False\<rparr>],
                data = [3, 0, 202, 154, 59, 0, 0, 0, 0]\<rparr>"]
        example_deposit
  by simp

text \<open>
  Claim C5. For every amount in the unsigned 64-bit range the deposit builder returns an
  instruction whose 9-byte payload has the deposit discriminator at offset 0 and the
  amount as 8 little-endian bytes at offset 1; reading an unsigned 64-bit little-endian
  integer back at offset 1 gives the amount.
\<close>

theorem createDepositInstruction_roundtrip:
  assumes "0 \<le> amount params" and "amount params < 2 ^ 64"
  shows "\<exists>ix. createDepositInstruction w user params program = Inr ix
              \<and> length (data ix) = 9
              \<and> data ix ! 0 = word_of_int (RouterInstruction_value Deposit)
              \<and> subarray (data ix) 1 9 = le_bytes 8 (amount params)
              \<and> readBigUInt64LE (data ix) 1 = Inr (amount params)"
  using assms
  by (simp add: deposit_data subarray_def readBigUInt64LE_def read_bytes_def
      le_value_le_bytes)

theorem createDepositInstruction_roundtrip_witness:
  "\<exists>ix. createDepositInstruction example_web3 1 \<lparr>amount = 1000000000, mint = 2\<rparr> 3 = Inr ix
       \<and> length (data ix) = 9
       \<and> data ix ! 0 = 3
       \<and> subarray (data ix) 1 9 = [0, 202, 154, 59, 0, 0, 0, 0]
       \<and> readBigUInt64LE (data ix) 1 = Inr 1000000000"
  using createDepositInstruction_roundtrip
          [of "\<lparr>amount = 1000000000, mint = 2\<rparr>" example_web3 1 3]
  by (simp add: le_bytes_example_amount)

section \<open>The builders that use the portfolio address as a seed\<close>

lemma createPortfolioAddress_toBuffer:
  "call_toBuffer (createPortfolioAddress w user program) = Inl TypeError"
  by (simp add: createPortfolioAddress_def call_toBuffer_def)

lemma example_derivations:
  "PublicKey_fromString example_web3 s = Inr (example_hash (Buffer_from_string s))"
  "findProgramAddressSync example_web3 seeds program
     = Inr (example_hash (concat seeds @ toBuffer program), 255)"
  by (simp_all add: example_web3_def)

text \<open>
  Claim C9. The claim describes the payload the cross-slab builder is written to produce:
  19 bytes, one split, only side, size and price encoded. The builder never gets that far.
  For every input and every behaviour of the library's derivations it returns no
  instruction: the call \<open>portfolioAddress.toBuffer()\<close> in the receipt seeds is made on the
  promise that \<open>createPortfolioAddress\<close> returned and throws, unless an earlier derivation
  has thrown already. With derivations that succeed, an order to sell 1000000 at
  50000000000 ends in the \<open>TypeError\<close>.
\<close>

theorem createExecuteCrossSlabInstruction_throws:
  "createExecuteCrossSlabInstruction w user slabPubkey oraclePubkey params program \<noteq> Inr ix
   \<and> createExecuteCrossSlabInstruction example_web3 1 2 4
        \<lparr>instrumentIdx = 0, side = Sell, order_size = 1000000, order_price = 50000000000,
         timeInForce = GTC, makerClass = None\<rparr> 3 = Inl TypeError"
proof
  show "createExecuteCrossSlabInstruction w user slabPubkey oraclePubkey params program
          \<noteq> Inr ix"
    by (simp add: createExecuteCrossSlabInstruction_def Let_def and_then_eq_Inr
        createPortfolioAddress_toBuffer)
  show "createExecuteCrossSlabInstruction example_web3 1 2 4
        \<lparr>instrumentIdx = 0, side = Sell, order_size = 1000000, order_price = 50000000000,
         timeInForce = GTC, makerClass = None\<rparr> 3 = Inl TypeError"
    by (simp add: createExecuteCrossSlabInstruction_def Let_def deriveVaultPda_def
        deriveRegistryPda_def deriveAuthorityPda_def pdaResult_def example_derivations
        createPortfolioAddress_toBuffer)
qed

text \<open>
  Claim C3. The claim compares the context id as the reserve builder writes it into the
  payload with the context id as it enters the LP-seat seeds. The builder produces
  neither: for every user, matcher state, amount, context id, program, host and library
  behaviour it throws a \<open>TypeError\<close> while it builds the seed list, at
  \<open>portfolioAddress.toBuffer()\<close>, before the context-id seed is made, before the address
  is derived and before any payload byte is written.
\<close>

theorem createRouterReserveInstruction_throws:
  "createRouterReserveInstruction host w user matcherState amt contextId program
     = Inl TypeError"
  by (simp add: createRouterReserveInstruction_def Let_def createPortfolioAddress_toBuffer)

section \<open>Governance authorization\<close>

lemma permission_without_committee:
  "Multisig_fromAccountAddress deserialize connection g = Inl e \<Longrightarrow>
     hasGovernancePermission deserialize connection g wallet = (wallet = g)"
  by (simp add: hasGovernancePermission_def isSquadsMultisig_def)

lemma permission_with_committee:
  "Multisig_fromAccountAddress deserialize connection g = Inr c \<Longrightarrow>
     hasGovernancePermission deserialize connection g wallet
       = (wallet = g \<or> wallet \<in> key ` set (members c))"
  by (auto simp: hasGovernancePermission_def isSquadsMultisig_def isMultisigMember_def
      list_ex_iff)

lemma example_committee_at_100:
  "Multisig_fromAccountAddress example_deserialize example_connection 100
     = Inr example_committee"
  by (simp add: Multisig_fromAccountAddress_def example_connection_def
      example_deserialize_def)

lemma example_wallet_at_11:
  "getAccountInfo example_connection 11 = Inr (Some []) \<and> example_deserialize [] = None"
  by (simp add: example_connection_def example_deserialize_def)

text \<open>
  The committee address itself is not a member of the committee at address 100, yet it is
  granted permission.
\<close>

theorem committee_address_counterexample:
  "isSquadsMultisig example_deserialize example_connection 100
   \<and> \<not> isMultisigMember example_deserialize example_connection 100 100
   \<and> hasGovernancePermission example_deserialize example_connection 100 100"
  by (simp add: isSquadsMultisig_def isMultisigMember_def hasGovernancePermission_def
      example_committee_at_100 example_committee_def)

text \<open>
  Claim C4, as the code has it. When the authority address does not resolve as a committee
  record (no account, a failed fetch, or bytes that do not deserialize), permission is
  granted exactly to the candidate equal to the authority. When it resolves as a committee
  record, \<open>isMultisigMember\<close> holds exactly for the members, and permission is granted to
  each member and denied to every non-member other than the authority address itself;
  the threshold plays no part.
\<close>

theorem hasGovernancePermission_resolution:
  "(Multisig_fromAccountAddress deserialize connection g = Inl e \<longrightarrow>
      hasGovernancePermission deserialize connection g wallet = (wallet = g))
   \<and> (getAccountInfo connection g = Inr (Some bytes) \<and> deserialize bytes = None \<longrightarrow>
      hasGovernancePermission deserialize connection g wallet = (wallet = g))
   \<and> (Multisig_fromAccountAddress deserialize connection g = Inr c \<longrightarrow>
        isMultisigMember deserialize connection g wallet = (wallet \<in> key ` set (members c))
      \<and> hasGovernancePermission deserialize connection g wallet
          = (wallet = g \<or> wallet \<in> key ` set (members c))
      \<and> (Multisig_fromAccountAddress deserialize' connection' g = Inr (c\<lparr>threshold := t\<rparr>) \<longrightarrow>
           hasGovernancePermission deserialize' connection' g wallet
             = hasGovernancePermission deserialize connection g wallet))"
proof (intro conjI impI)
  assume "Multisig_fromAccountAddress deserialize connection g = Inl e"
  then show "hasGovernancePermission deserialize connection g wallet = (wallet = g)"
    by (rule permission_without_committee)
next
  assume "getAccountInfo connection g = Inr (Some bytes) \<and> deserialize bytes = None"
  then have "Multisig_fromAccountAddress deserialize connection g = Inl Error"
    by (simp add: Multisig_fromAccountAddress_def)
  then show "hasGovernancePermission deserialize connection g wallet = (wallet = g)"
    by (rule permission_without_committee)
next
  assume c: "Multisig_fromAccountAddress deserialize connection g = Inr c"
  then show "isMultisigMember deserialize connection g wallet
               = (wallet \<in> key ` set (members c))"
    by (auto simp: isMultisigMember_def list_ex_iff)
  show "hasGovernancePermission deserialize connection g wallet
          = (wallet = g \<or> wallet \<in> key ` set (members c))"
    using c by (rule permission_with_committee)
  assume "Multisig_fromAccountAddress deserialize' connection' g = Inr (c\<lparr>threshold := t\<rparr>)"
  then show "hasGovernancePermission deserialize' connection' g wallet
             = hasGovernancePermission deserialize connection g wallet"
    using c by (simp add: permission_with_committee)
qed

theorem hasGovernancePermission_resolution_witness:
  "hasGovernancePermission example_deserialize example_connection 100 11
   \<and> hasGovernancePermission example_deserialize example_connection 100 12
   \<and> hasGovernancePermission example_deserialize example_connection 100 13
   \<and> \<not> hasGovernancePermission example_deserialize example_connection 100 14
   \<and> hasGovernancePermission example_deserialize example_connection 11 11
   \<and> \<not> hasGovernancePermission example_deserialize example_connection 11 12"
proof -
  note committee_case = hasGovernancePermission_resolution
         [where deserialize = example_deserialize and connection = example_connection
            and g = 100 and c = example_committee,
          THEN conjunct2, THEN conjunct2, rule_format, OF example_committee_at_100,
          THEN conjunct2, THEN conjunct1]
  note single_case = hasGovernancePermission_resolution
         [where deserialize = example_deserialize and connection = example_connection
            and g = 11 and bytes = "[]",
          THEN conjunct2, THEN conjunct1, rule_format, OF example_wallet_at_11]
  show ?thesis
    by (simp add: committee_case single_case example_committee_def)
qed

text \<open>
  Claim C10. The equality test comes first: a candidate equal to the governance address is
  granted permission whatever the ledger holds at that address, a committee account
  included, and without the ledger being consulted.
\<close>

theorem hasGovernancePermission_self:
  "hasGovernancePermission deserialize connection governanceAddress governanceAddress"
  by (simp add: hasGovernancePermission_def)

end
